theory Spec2Isabelle
  imports Main
begin

section \<open>JavaScript values and idioms used by \<open>middleware/auth.js\<close>\<close>

text \<open>
  A JavaScript number is an IEEE 754 double. Every finite double is an integer multiple
  of \<open>2^-1074\<close> with at most 53 significant bits: \<open>Fin k\<close> is the double
  \<open>k * 2^-1074\<close>, so that \<open>num n\<close> is the integer \<open>n\<close>, and \<open>huge\<close> is the least
  magnitude that is too large for a finite double. The two zeros are not told apart:
  the middleware never produces \<open>-0\<close> and treats it as \<open>0\<close>.
\<close>

datatype jsnum = Fin int | PosInf | NegInf | NaN

definition scale :: int where
  "scale = 2 ^ 1074"

definition huge :: int where
  "huge = 2 ^ 1024"

definition num :: "int \<Rightarrow> jsnum" where
  "num n = Fin (n * scale)"

text \<open>
  Rounding to 53 significant bits, to nearest and ties to even: \<open>bits n\<close> is the
  length of \<open>n\<close> in binary, \<open>rne k s\<close> is \<open>k / 2^s\<close> rounded to an integer, and
  \<open>fl k\<close> is the double nearest to the exact value \<open>k * 2^-1074\<close>, infinite from
  \<open>huge\<close> on.
\<close>

fun bits :: "nat \<Rightarrow> nat" where
  "bits n = (if n = 0 then 0 else Suc (bits (n div 2)))"

declare bits.simps [simp del]

definition rne :: "int \<Rightarrow> nat \<Rightarrow> int" where
  "rne k s =
     (let q = k div 2 ^ s; r = k mod 2 ^ s; h = 2 ^ (s - 1)
      in if r < h then q else if h < r then q + 1 else if even q then q else q + 1)"

definition round53 :: "int \<Rightarrow> int" where
  "round53 k = (let s = bits (nat \<bar>k\<bar>) - 53 in rne k s * 2 ^ s)"

definition fl :: "int \<Rightarrow> jsnum" where
  "fl k =
     (let r = round53 k
      in if huge * scale \<le> r then PosInf
         else if r \<le> - (huge * scale) then NegInf
         else Fin r)"

text \<open>\<open>a - b\<close> and \<open>a < b\<close> on numbers.\<close>

fun dsub :: "jsnum \<Rightarrow> jsnum \<Rightarrow> jsnum" where
  "dsub NaN _ = NaN"
| "dsub _ NaN = NaN"
| "dsub PosInf PosInf = NaN"
| "dsub NegInf NegInf = NaN"
| "dsub PosInf _ = PosInf"
| "dsub NegInf _ = NegInf"
| "dsub (Fin _) PosInf = NegInf"
| "dsub (Fin _) NegInf = PosInf"
| "dsub (Fin a) (Fin b) = fl (a - b)"

fun dlt :: "jsnum \<Rightarrow> jsnum \<Rightarrow> bool" where
  "dlt NaN _ = False"
| "dlt _ NaN = False"
| "dlt (Fin a) (Fin b) = (a < b)"
| "dlt (Fin _) PosInf = True"
| "dlt (Fin _) NegInf = False"
| "dlt PosInf _ = False"
| "dlt NegInf NegInf = False"
| "dlt NegInf _ = True"

text \<open>
  Response bodies are JSON object literals; they are kept as the source writes them,
  key by key. \<open>JNum\<close> holds an integer literal of the source, \<open>JNumber\<close> a number
  computed at run time.
\<close>

datatype json =
  JUndefined | JNum int | JNumber jsnum | JStr string | JObj "(string \<times> json) list"

fun field :: "json \<Rightarrow> string \<Rightarrow> json" where
  "field (JObj kvs) k = (case map_of kvs k of Some v \<Rightarrow> v | None \<Rightarrow> JUndefined)"
| "field _ k = JUndefined"

datatype js_error = TypeError

text \<open>
  What an Express middleware does with a request: call \<open>next()\<close> (with the request
  as it then is), end it with \<open>res.status(s).json(body)\<close>, or throw.
\<close>

datatype 'a mw_result = Next 'a | Respond nat json | Throw js_error

text \<open>
  \<open>a || d\<close> on a value that is a number or \<open>undefined\<close>, and on one that is a string
  or \<open>undefined\<close>: the default is taken for every falsy value, so also for \<open>0\<close>, for
  \<open>NaN\<close> and for the empty string.
\<close>

definition or_num :: "jsnum option \<Rightarrow> jsnum \<Rightarrow> jsnum" where
  "or_num a d = (case a of None \<Rightarrow> d | Some n \<Rightarrow> if n = Fin 0 \<or> n = NaN then d else n)"

definition or_str :: "string option \<Rightarrow> string \<Rightarrow> string" where
  "or_str a d = (case a of None \<Rightarrow> d | Some s \<Rightarrow> if s = [] then d else s)"

definition opt_str_json :: "string option \<Rightarrow> json" where
  "opt_str_json a = (case a of None \<Rightarrow> JUndefined | Some s \<Rightarrow> JStr s)"

text \<open>
  \<open>obj[key]\<close> on an object literal. An object literal inherits from
  \<open>Object.prototype\<close>, so a key that is not an own property still finds the members
  every object inherits (functions, and for \<open>__proto__\<close> the prototype object itself):
  all of them truthy, none of them carrying the own properties of the table's entries.
\<close>

definition object_prototype_names :: "string list" where
  "object_prototype_names =
     [''constructor'', ''hasOwnProperty'', ''isPrototypeOf'', ''propertyIsEnumerable'',
      ''toLocaleString'', ''toString'', ''valueOf'', ''__proto__'',
      ''__defineGetter__'', ''__defineSetter__'', ''__lookupGetter__'', ''__lookupSetter__'']"

datatype 'v member = Own 'v | Inherited | Absent

definition get_prop :: "(string \<times> 'v) list \<Rightarrow> string \<Rightarrow> 'v member" where
  "get_prop obj k =
     (case map_of obj k of
        Some v \<Rightarrow> Own v
      | None \<Rightarrow> if k \<in> set object_prototype_names then Inherited else Absent)"

text \<open>The property key JavaScript uses for a value that is a string or \<open>undefined\<close>.\<close>

definition prop_key :: "string option \<Rightarrow> string" where
  "prop_key a = (case a of None \<Rightarrow> ''undefined'' | Some s \<Rightarrow> s)"

text \<open>\<open>s.split(' ')\<close>: the fields between single spaces; never the empty array.\<close>

fun split_sp :: "string \<Rightarrow> string list" where
  "split_sp [] = [[]]"
| "split_sp (c # cs) =
     (if c = CHR '' '' then [] # split_sp cs
      else (case split_sp cs of [] \<Rightarrow> [[c]] | w # ws \<Rightarrow> (c # w) # ws))"


section \<open>Identity claims\<close>

text \<open>
  The user object (\<open>req.user\<close>, and the argument of \<open>generateToken\<close>). \<open>plan\<close> and
  \<open>credits\<close> are read through \<open>||\<close> in the source, so they may be \<open>undefined\<close>.
  A decoded token payload is a user with the two registered claims \<open>iat\<close> and \<open>exp\<close>
  (seconds) the token library adds. The source's \<open>id\<close> is \<open>user_id\<close> here and
  \<open>exp\<close> is \<open>exp_at\<close>; \<open>id\<close>, \<open>email\<close> and \<open>company\<close> are opaque strings.
\<close>

record user =
  user_id :: string
  email :: string
  plan :: "string option"
  credits :: "jsnum option"
  company :: string

record payload = user +
  iat :: nat
  exp_at :: nat

definition valid_identity :: "user \<Rightarrow> bool" where
  "valid_identity u \<longleftrightarrow>
     plan u \<in> {Some ''developer'', Some ''compliance'', Some ''enterprise''} \<and>
     (\<exists>n\<ge>0. credits u = Some (num n))"


section \<open>Rate limiting by tier (\<open>createRateLimit\<close>)\<close>

text \<open>An entry of \<open>limits\<close>; its \<open>max\<close> is \<open>max_hits\<close> here.\<close>

record tier_limit =
  windowMs :: int
  max_hits :: int

definition limits :: "(string \<times> tier_limit) list" where
  "limits =
     [(''developer'', \<lparr>windowMs = 15 * 60 * 1000, max_hits = 1000\<rparr>),
      (''compliance'', \<lparr>windowMs = 15 * 60 * 1000, max_hits = 10000\<rparr>),
      (''enterprise'', \<lparr>windowMs = 15 * 60 * 1000, max_hits = 100000\<rparr>)]"

text \<open>
  The options object handed to \<open>rateLimit\<close>. \<open>limit.windowMs\<close> and \<open>limit.max\<close> are
  \<open>undefined\<close> when \<open>limit\<close> is an inherited member of \<open>limits\<close>.
\<close>

record rl_options =
  opt_windowMs :: "int option"
  opt_max :: "int option"
  opt_message :: json
  standardHeaders :: bool
  legacyHeaders :: bool

text \<open>
  The \<open>express-rate-limit\<close> package is an external dependency: \<open>rateLimit(options)\<close>
  builds a limiter, and calling the limiter on a request of some caller key either lets
  it through or answers it. Both are parameters of the model; a limiter's counters live
  in the limiter (\<open>'l\<close>), and a call returns the limiter as it then is.
\<close>

record 'l rate_lib =
  rateLimit :: "rl_options \<Rightarrow> 'l"
  rl_call :: "'l \<Rightarrow> string \<Rightarrow> unit mw_result \<times> 'l"

definition limit_for :: "string \<Rightarrow> tier_limit member" where
  \<comment> \<open>\<open>limits[tier] || limits.developer\<close>: every value found, own or inherited, is truthy\<close>
  "limit_for tier =
     (case get_prop limits tier of
        Absent \<Rightarrow> get_prop limits ''developer''
      | found \<Rightarrow> found)"

definition rate_limit_options :: "string \<Rightarrow> rl_options" where
  "rate_limit_options tier =
     (let limit = limit_for tier in
      \<lparr>opt_windowMs = (case limit of Own l \<Rightarrow> Some (windowMs l) | _ \<Rightarrow> None),
       opt_max = (case limit of Own l \<Rightarrow> Some (max_hits l) | _ \<Rightarrow> None),
       opt_message = JObj [(''error'', JStr ''Rate limit exceeded''),
                           (''tier'', JStr tier),
                           (''upgradeUrl'',
                              JStr (if tier = ''developer'' then ''/pricing'' else ''/contact''))],
       standardHeaders = True,
       legacyHeaders = False\<rparr>)"

definition createRateLimit :: "'l rate_lib \<Rightarrow> string \<Rightarrow> 'l" where
  "createRateLimit rl tier = rateLimit rl (rate_limit_options tier)"


section \<open>Feature gate (\<open>requireFeature\<close>)\<close>

definition features :: "(string \<times> string list) list" where
  "features =
     [(''developer'', [''url_scan'', ''basic_reports'']),
      (''compliance'', [''url_scan'', ''vertical_discovery'', ''ai_fixes'', ''legal_risk'']),
      (''enterprise'', [''url_scan'', ''vertical_discovery'', ''ai_fixes'', ''legal_risk'',
                        ''api_access'', ''white_label''])]"

text \<open>
  \<open>features[user.plan]?.includes(feature)\<close>: \<open>?.\<close> yields \<open>undefined\<close> only when
  \<open>features[user.plan]\<close> is \<open>undefined\<close>; an inherited member is not, and has no
  \<open>includes\<close>, so the call throws a TypeError.
\<close>

definition plan_includes :: "string option \<Rightarrow> string \<Rightarrow> js_error + bool" where
  "plan_includes p feature =
     (case get_prop features (prop_key p) of
        Own fs \<Rightarrow> Inr (feature \<in> set fs)
      | Absent \<Rightarrow> Inr False
      | Inherited \<Rightarrow> Inl TypeError)"

definition upgradePrice :: "string \<Rightarrow> int" where
  "upgradePrice feature =
     (if feature = ''vertical_discovery'' then 299
      else if feature = ''ai_fixes'' then 299 else 999)"

definition requireFeature :: "string \<Rightarrow> 'a user_scheme \<Rightarrow> unit mw_result" where
  "requireFeature feature usr =
     (case plan_includes (plan usr) feature of
        Inl e \<Rightarrow> Throw e
      | Inr False \<Rightarrow>
          Respond 403 (JObj [(''error'', JStr ''Feature not available in your plan''),
                             (''feature'', JStr feature),
                             (''currentPlan'', opt_str_json (plan usr)),
                             (''upgradeUrl'', JStr ''/pricing''),
                             (''upgradePrice'', JNum (upgradePrice feature))])
      | Inr True \<Rightarrow> Next ())"


section \<open>Credit gate (\<open>checkCredits\<close>)\<close>

definition upgradeOptions :: json where
  "upgradeOptions =
     JObj [(''starter'', JObj [(''credits'', JNum 100), (''price'', JNum 49)]),
           (''pro'', JObj [(''credits'', JNum 1000), (''price'', JNum 399)]),
           (''enterprise'', JObj [(''credits'', JNum 10000), (''price'', JNum 2999)])]"

text \<open>
  \<open>req.body\<close>: absent when no body parser has run, otherwise an object whose \<open>cost\<close>
  is a number or absent (the interface gives the cost as a numeric field).
\<close>

record body =
  body_cost :: "jsnum option"

definition insufficient_credits_body :: "jsnum \<Rightarrow> jsnum \<Rightarrow> json" where
  "insufficient_credits_body cost remainingCredits =
     JObj [(''error'', JStr ''Insufficient credits''),
           (''required'', JNumber cost),
           (''remaining'', JNumber remainingCredits),
           (''purchaseUrl'', JStr ''/credits''),
           (''upgradeOptions'', upgradeOptions)]"

text \<open>
  Reading \<open>req.body.cost\<close> throws a TypeError when \<open>req.body\<close> is \<open>undefined\<close>: the
  promise of the \<open>async\<close> function is rejected, \<open>next()\<close> is not called and no
  response is sent. The result of \<open>next()\<close> carries \<open>req.user\<close> with the credits
  deducted.
\<close>

definition checkCredits :: "'a user_scheme \<Rightarrow> body option \<Rightarrow> 'a user_scheme mw_result" where
  "checkCredits usr req_body =
     (case req_body of
        None \<Rightarrow> Throw TypeError
      | Some b \<Rightarrow>
          (let cost = or_num (body_cost b) (num 1);
               remainingCredits = or_num (credits usr) (num 0)
           in if dlt remainingCredits cost then
                Respond 402 (insufficient_credits_body cost remainingCredits)
              else Next (usr\<lparr>credits := Some (dsub remainingCredits cost)\<rparr>)))"


section \<open>Signing key and token issue/verification (\<open>JWT_SECRET\<close>, \<open>generateToken\<close>,
  \<open>authenticateToken\<close>)\<close>

text \<open>\<open>process.env\<close>: environment variables are strings or absent.\<close>

type_synonym env = "string \<Rightarrow> string option"

definition JWT_SECRET :: "env \<Rightarrow> string" where
  "JWT_SECRET env = or_str (env ''JWT_SECRET'') ''wcagai-v4-revenue-secret-2025''"

text \<open>
  What loading the module does: the top-level statements bind \<open>JWT_SECRET\<close> and the
  exported functions; none of them throws and none of them writes to the log. The
  result is the key in use and the log lines written, or a fatal error.
\<close>

datatype startup = Fatal string | Loaded string "string list"

definition load_module :: "env \<Rightarrow> startup" where
  "load_module env = Loaded (JWT_SECRET env) []"

text \<open>
  The \<open>jsonwebtoken\<close> package is an external dependency and a parameter of the model:
  \<open>jwt.sign(claims, secret, {expiresIn})\<close> and \<open>jwt.verify(token, secret, callback)\<close>,
  each reading the clock (whole seconds). \<open>verify\<close> hands its callback an error or the
  decoded payload.
\<close>

datatype jwt_error = JsonWebTokenError | TokenExpiredError | NotBeforeError

record jwt_lib =
  jwt_sign :: "user \<Rightarrow> string \<Rightarrow> nat \<Rightarrow> nat \<Rightarrow> string"
  jwt_verify :: "string \<Rightarrow> string \<Rightarrow> nat \<Rightarrow> jwt_error + payload"

definition expiresIn_24h :: nat where
  "expiresIn_24h = 24 * 60 * 60"

definition generateToken :: "jwt_lib \<Rightarrow> env \<Rightarrow> 'a user_scheme \<Rightarrow> nat \<Rightarrow> string" where
  "generateToken jl env usr now =
     jwt_sign jl
       \<lparr>user_id = user_id usr,
        email = email usr,
        plan = Some (or_str (plan usr) ''developer''),
        credits = Some (or_num (credits usr) (num 0)),
        company = company usr\<rparr>
       (JWT_SECRET env) expiresIn_24h now"

text \<open>
  \<open>authHeader && authHeader.split(' ')[1]\<close>: \<open>None\<close> is \<open>undefined\<close>; the empty
  header is returned as it is.
\<close>

definition header_token :: "string option \<Rightarrow> string option" where
  "header_token authHeader =
     (case authHeader of
        None \<Rightarrow> None
      | Some a \<Rightarrow>
          if a = [] then Some []
          else (case split_sp a of _ # t # _ \<Rightarrow> Some t | _ \<Rightarrow> None))"

definition auth_required_body :: json where
  "auth_required_body =
     JObj [(''error'', JStr ''Authentication required''),
           (''message'', JStr ''Please sign in or upgrade your plan''),
           (''pricingUrl'', JStr ''/pricing'')]"

definition invalid_token_body :: json where
  "invalid_token_body =
     JObj [(''error'', JStr ''Invalid or expired token''),
           (''message'', JStr ''Please refresh your session'')]"

text \<open>
  Lines 58 to 60: a limiter is built for the user's tier and called on this request.
  The limiter is local to the callback: what it counted is not kept.
\<close>

definition tierLimiter :: "'l rate_lib \<Rightarrow> payload \<Rightarrow> string \<Rightarrow> payload mw_result" where
  "tierLimiter rl usr key =
     (case fst (rl_call rl (createRateLimit rl (or_str (plan usr) ''developer'')) key) of
        Next _ \<Rightarrow> Next usr
      | Respond s b \<Rightarrow> Respond s b
      | Throw e \<Rightarrow> Throw e)"

text \<open>
  \<open>authHeader\<close> is \<open>req.headers['authorization']\<close>, \<open>key\<close> the caller key of the
  request (its address), \<open>now\<close> the clock; \<open>Next\<close> carries \<open>req.user\<close>.
\<close>

definition authenticateToken ::
    "jwt_lib \<Rightarrow> 'l rate_lib \<Rightarrow> env \<Rightarrow> string option \<Rightarrow> string \<Rightarrow> nat \<Rightarrow> payload mw_result" where
  "authenticateToken jl rl env authHeader key now =
     (case header_token authHeader of
        None \<Rightarrow> Respond 401 auth_required_body
      | Some token \<Rightarrow>
          if token = [] then Respond 401 auth_required_body
          else (case jwt_verify jl token (JWT_SECRET env) now of
                  Inl err \<Rightarrow> Respond 403 invalid_token_body
                | Inr usr \<Rightarrow> tierLimiter rl usr key))"


section \<open>Stand-ins for the two packages\<close>

text \<open>
  Modelled from the spec: the counting of \<open>express-rate-limit\<close> is not part of the
  sources. A limiter "counts requests per caller key within the window" and answers
  \<open>RateLimited\<close> "on exceeding the ceiling"; the answer is status 429 with the
  configured message. The counts are those of the current window; \<open>dflt\<close> is the
  ceiling the package uses when the \<open>max\<close> option is \<open>undefined\<close>.
\<close>

record counter =
  ceiling_hits :: int
  message :: json
  hits :: "string \<Rightarrow> nat"

definition counter_new :: "int \<Rightarrow> rl_options \<Rightarrow> counter" where
  "counter_new dflt opts =
     \<lparr>ceiling_hits = (case opt_max opts of Some m \<Rightarrow> m | None \<Rightarrow> dflt),
      message = opt_message opts,
      hits = (\<lambda>_. 0)\<rparr>"

definition counter_call :: "counter \<Rightarrow> string \<Rightarrow> unit mw_result \<times> counter" where
  "counter_call c key =
     (let n = Suc (hits c key) in
      (if int n > ceiling_hits c then Respond 429 (message c) else Next (),
       c\<lparr>hits := (hits c)(key := n)\<rparr>))"

definition counter_lib :: "int \<Rightarrow> counter rate_lib" where
  "counter_lib dflt = \<lparr>rateLimit = counter_new dflt, rl_call = counter_call\<rparr>"

text \<open>One limiter called \<open>n\<close> times by the same caller: the answers in order.\<close>

fun call_n :: "'l rate_lib \<Rightarrow> 'l \<Rightarrow> string \<Rightarrow> nat \<Rightarrow> unit mw_result list" where
  "call_n rl l key 0 = []"
| "call_n rl l key (Suc n) = fst (rl_call rl l key) # call_n rl (snd (rl_call rl l key)) key n"

fun accepted :: "'a mw_result \<Rightarrow> bool" where
  "accepted (Next _) = True"
| "accepted _ = False"

text \<open>
  A test double of \<open>jsonwebtoken\<close> that knows one token: the one issued for the claims
  \<open>c0\<close> at time \<open>t0\<close> under the key \<open>k0\<close>, valid for 24 hours. Every other string is a
  bad token, as is the token under another key.
\<close>

definition issued :: "user \<Rightarrow> nat \<Rightarrow> nat \<Rightarrow> payload" where
  "issued c t ttl =
     \<lparr>user_id = user_id c, email = email c, plan = plan c, credits = credits c,
      company = company c, iat = t, exp_at = t + ttl\<rparr>"

definition double_jwt :: "string \<Rightarrow> user \<Rightarrow> nat \<Rightarrow> jwt_lib" where
  "double_jwt k0 c0 t0 =
     \<lparr>jwt_sign = (\<lambda>c k ttl t. ''hdr.claims.sig''),
      jwt_verify = (\<lambda>tok k t.
         if tok = ''hdr.claims.sig'' \<and> k = k0
         then if t < t0 + expiresIn_24h then Inr (issued c0 t0 expiresIn_24h)
              else Inl TokenExpiredError
         else Inl JsonWebTokenError)\<rparr>"

text \<open>
  What the model asks of the token library for one issued token: the token is a
  non-empty string without spaces, and verifying it under the same key gives back the
  claims with \<open>iat\<close> and \<open>exp\<close> before the expiry, and the expiry error from the expiry on.
\<close>

definition jwt_honours :: "jwt_lib \<Rightarrow> string \<Rightarrow> user \<Rightarrow> nat \<Rightarrow> nat \<Rightarrow> bool" where
  "jwt_honours jl secret c ttl t \<longleftrightarrow>
     jwt_sign jl c secret ttl t \<noteq> [] \<and>
     CHR '' '' \<notin> set (jwt_sign jl c secret ttl t) \<and>
     (\<forall>t'. jwt_verify jl (jwt_sign jl c secret ttl t) secret t' =
             (if t' < t + ttl then Inr (issued c t ttl) else Inl TokenExpiredError))"

text \<open>The three typed errors the specification gives \<open>verify\<close>.\<close>

datatype AuthError = Missing | Invalid | Expired

definition alice :: user where
  "alice = \<lparr>user_id = ''u-17'', email = ''alice@example.org'', plan = Some ''compliance'',
            credits = Some (num 10), company = ''Example Ltd''\<rparr>"

definition bob :: user where
  "bob = \<lparr>user_id = ''u-4'', email = ''bob@example.org'', plan = Some ''developer'',
          credits = Some (num 0), company = ''Example Ltd''\<rparr>"

definition no_env :: env where
  "no_env = (\<lambda>_. None)"

definition production_env :: env where
  "production_env = (\<lambda>_. None)(''NODE_ENV'' := Some ''production'')"


section \<open>Arithmetic on numbers\<close>

lemma bits_0: "bits 0 = 0"
  by (subst bits.simps) simp

lemma bits_pos: "n \<noteq> 0 \<Longrightarrow> bits n = Suc (bits (n div 2))"
  by (subst bits.simps) simp

lemma bits_le: "bits n \<le> b \<longleftrightarrow> n < 2 ^ b"
proof (induction n arbitrary: b rule: bits.induct)
  case (1 n)
  show ?case
  proof (cases "n = 0")
    case True
    then show ?thesis by (simp add: bits_0)
  next
    case False
    show ?thesis
    proof (cases b)
      case 0
      with False show ?thesis by (simp add: bits_pos)
    next
      case (Suc b')
      have "bits n \<le> Suc b' \<longleftrightarrow> bits (n div 2) \<le> b'"
        using False by (simp add: bits_pos)
      also have "\<dots> \<longleftrightarrow> n div 2 < 2 ^ b'"
        using "1.IH" [OF False] .
      also have "\<dots> \<longleftrightarrow> n < 2 ^ Suc b'"
        by auto
      finally show ?thesis using Suc by simp
    qed
  qed
qed

lemma bits_eq:
  assumes "2 ^ b \<le> n" and "n < 2 ^ Suc b"
  shows "bits n = Suc b"
proof -
  from assms(2) have "bits n \<le> Suc b" by (simp only: bits_le)
  moreover from assms(1) have "\<not> bits n \<le> b" by (simp add: bits_le)
  ultimately show ?thesis by simp
qed

lemma bits_double: "n \<noteq> 0 \<Longrightarrow> bits (2 * n) = Suc (bits n)"
  by (simp add: bits_pos [of "2 * n"])

lemma bits_scale: "n \<noteq> 0 \<Longrightarrow> bits (n * 2 ^ j) = bits n + j"
proof (induction j)
  case 0
  then show ?case by simp
next
  case (Suc j)
  have e: "n * 2 ^ Suc j = 2 * (n * 2 ^ j)" by simp
  have "n * 2 ^ j \<noteq> 0" using Suc.prems by simp
  then have "bits (2 * (n * 2 ^ j)) = Suc (bits (n * 2 ^ j))" by (rule bits_double)
  then show ?case unfolding e using Suc by simp
qed

lemma rne_exact: "rne (m * 2 ^ s) s = m"
  by (simp add: rne_def)

lemma rne_scale:
  assumes "0 < s"
  shows "rne (k * 2 ^ j) (s + j) = rne k s"
proof -
  have d: "(k * 2 ^ j) div 2 ^ (s + j) = k div 2 ^ s"
    by (simp add: power_add)
  have m: "(k * 2 ^ j) mod 2 ^ (s + j) = (k mod 2 ^ s) * 2 ^ j"
    by (simp add: power_add)
  have h: "(2::int) ^ (s + j - 1) = 2 ^ (s - 1) * 2 ^ j"
    using assms by (simp add: power_add [symmetric])
  show ?thesis
    unfolding rne_def d m h by (simp add: Let_def)
qed

text \<open>Rounding commutes with scaling by a power of two.\<close>

lemma round53_scale: "round53 (k * 2 ^ j) = round53 k * 2 ^ j"
proof (cases "k = 0")
  case True
  then show ?thesis by (simp add: round53_def rne_def bits_0)
next
  case False
  let ?b = "bits (nat \<bar>k\<bar>)"
  have nz: "nat \<bar>k\<bar> \<noteq> 0" using False by simp
  have "nat \<bar>k * 2 ^ j\<bar> = nat \<bar>k\<bar> * 2 ^ j"
    by (simp add: abs_mult nat_mult_distrib nat_power_eq)
  then have b: "bits (nat \<bar>k * 2 ^ j\<bar>) = ?b + j"
    using bits_scale [OF nz] by simp
  show ?thesis
  proof (cases "53 < ?b")
    case True
    then have s: "?b + j - 53 = (?b - 53) + j" and pos: "0 < ?b - 53" by simp_all
    show ?thesis
      unfolding round53_def b Let_def s rne_scale [OF pos]
      by (simp add: power_add)
  next
    case False
    then have s0: "?b - 53 = 0" by simp
    from False have "?b + j - 53 \<le> j" by simp
    then obtain d where d: "j = (?b + j - 53) + d"
      using le_Suc_ex by blast
    have "k * 2 ^ j = (k * 2 ^ d) * 2 ^ (?b + j - 53)"
      by (subst d) (simp add: power_add)
    then have "rne (k * 2 ^ j) (?b + j - 53) * 2 ^ (?b + j - 53) = k * 2 ^ j"
      by (simp only: rne_exact)
    moreover have "round53 k = k"
      by (simp add: round53_def s0 rne_def)
    ultimately show ?thesis
      by (simp add: round53_def b)
  qed
qed

text \<open>Integers up to \<open>2^53\<close> in magnitude are doubles, and arithmetic on them is exact.\<close>

lemma scale_pos: "0 < scale"
  by (simp add: scale_def)

lemma round53_exact:
  assumes "\<bar>n\<bar> \<le> 2 ^ 53"
  shows "round53 n = n"
proof (cases "\<bar>n\<bar> < 2 ^ 53")
  case True
  then have "nat \<bar>n\<bar> < 2 ^ 53"
    by (simp add: nat_less_iff)
  then have "bits (nat \<bar>n\<bar>) - 53 = 0"
    using bits_le [of "nat \<bar>n\<bar>" 53] by simp
  then show ?thesis by (simp add: round53_def rne_def)
next
  case False
  with assms have n: "\<bar>n\<bar> = 2 ^ 53" by simp
  then have "nat \<bar>n\<bar> = 2 ^ 53" by simp
  then have "bits (nat \<bar>n\<bar>) = Suc 53"
    using bits_eq [of 53 "nat \<bar>n\<bar>"] by simp
  then have s: "bits (nat \<bar>n\<bar>) - 53 = 1" by simp
  from n have "n = 2 ^ 52 * 2 ^ 1 \<or> n = (- (2 ^ 52)) * 2 ^ 1"
    by (cases "0 \<le> n") simp_all
  then have "rne n 1 * 2 ^ 1 = n"
    using rne_exact [of "2 ^ 52" 1] rne_exact [of "- (2 ^ 52)" 1] by auto
  then show ?thesis by (simp add: round53_def s)
qed

lemma fl_scaled:
  assumes "\<bar>round53 n\<bar> < huge"
  shows "fl (n * scale) = Fin (round53 n * scale)"
proof -
  have r: "round53 (n * scale) = round53 n * scale"
    unfolding scale_def by (rule round53_scale)
  from assms have "round53 n < huge" and "- huge < round53 n"
    by simp_all
  then have "round53 n * scale < huge * scale"
    and "(- huge) * scale < round53 n * scale"
    using scale_pos by (simp_all only: mult_strict_right_mono)
  then show ?thesis by (simp add: fl_def r)
qed

lemma fl_num:
  assumes "\<bar>n\<bar> \<le> 2 ^ 53"
  shows "fl (n * scale) = num n"
proof -
  have "(2::int) ^ 53 < huge" by (simp add: huge_def)
  with assms have "\<bar>round53 n\<bar> < huge"
    by (simp add: round53_exact [OF assms])
  then show ?thesis
    by (simp add: fl_scaled round53_exact [OF assms] num_def)
qed

lemma dsub_num:
  assumes "\<bar>a - b\<bar> \<le> 2 ^ 53"
  shows "dsub (num a) (num b) = num (a - b)"
  using fl_num [OF assms] by (simp add: num_def left_diff_distrib)

lemma dlt_num: "dlt (num a) (num b) \<longleftrightarrow> a < b"
  using scale_pos by (simp add: num_def)

lemma num_eq_iff: "num a = num b \<longleftrightarrow> a = b"
  using scale_pos by (simp add: num_def)

lemma num_neq_NaN: "num n \<noteq> NaN"
  by (simp add: num_def)

lemma num_zero: "num 0 = Fin 0"
  by (simp add: num_def)


lemma fl_pow2:
  assumes "\<bar>round53 n * 2 ^ j\<bar> < huge * scale"
  shows "fl (n * 2 ^ j) = Fin (round53 n * 2 ^ j)"
  using assms by (auto simp add: fl_def round53_scale Let_def)

text \<open>
  Beyond \<open>2^53\<close> and below one unit in the last place subtraction rounds:
  \<open>(2^53 + 2) - 1\<close> and \<open>2^53 - (-1)\<close> are \<open>2^53\<close>, and \<open>10 - (-2^-54)\<close> is \<open>10\<close>.
\<close>

lemma round53_tie: "round53 (2 ^ 53 + 1) = 2 ^ 53"
proof -
  have "bits (nat \<bar>2 ^ 53 + 1 :: int\<bar>) = Suc 53"
    by (rule bits_eq) simp_all
  then show ?thesis
    by (simp add: round53_def rne_def)
qed


lemma dsub_tie_neg: "dsub (num (2 ^ 53)) (num (- 1)) = num (2 ^ 53)"
proof -
  have "(2::int) ^ 53 < huge" by (simp add: huge_def)
  then have "fl ((2 ^ 53 + 1) * scale) = Fin (2 ^ 53 * scale)"
    using fl_scaled [of "2 ^ 53 + 1"] by (simp only: round53_tie) simp
  moreover have "2 ^ 53 * scale - (- 1) * scale = (2 ^ 53 + 1) * scale"
    by (simp add: algebra_simps)
  ultimately show ?thesis
    by (simp only: num_def dsub.simps)
qed

lemma round53_small_part: "round53 (10 * 2 ^ 54 + 1) = 10 * 2 ^ 54"
proof -
  have "bits (nat \<bar>10 * 2 ^ 54 + 1 :: int\<bar>) = Suc 57"
    by (rule bits_eq) simp_all
  then show ?thesis
    by (simp add: round53_def rne_def)
qed

lemma scale_split: "scale = 2 ^ 54 * 2 ^ 1020"
  unfolding scale_def by (simp only: power_add [symmetric]) simp

lemma dsub_small_part: "dsub (num 10) (Fin (- (2 ^ 1020))) = num 10"
proof -
  have e: "10 * scale - (- (2 ^ 1020)) = (10 * 2 ^ 54 + 1) * 2 ^ 1020"
    by (simp only: scale_split) (simp only: algebra_simps)
  have r: "round53 (10 * 2 ^ 54 + 1) * 2 ^ 1020 = 10 * scale"
    by (simp only: round53_small_part scale_split)
  have "(10::int) < huge" by (simp add: huge_def)
  then have "10 * scale < huge * scale"
    using scale_pos by (simp only: mult_strict_right_mono)
  moreover have "(0::int) \<le> 10 * scale" using scale_pos by simp
  ultimately have "\<bar>round53 (10 * 2 ^ 54 + 1) * 2 ^ 1020\<bar> < huge * scale"
    by (simp only: r)
  from fl_pow2 [OF this] show ?thesis
    by (simp only: num_def dsub.simps e r)
qed


section \<open>Property lookup and header parsing\<close>

lemma limit_for_known:
  "limit_for ''developer'' = Own \<lparr>windowMs = 900000, max_hits = 1000\<rparr>"
  "limit_for ''compliance'' = Own \<lparr>windowMs = 900000, max_hits = 10000\<rparr>"
  "limit_for ''enterprise'' = Own \<lparr>windowMs = 900000, max_hits = 100000\<rparr>"
  by (simp_all add: limit_for_def get_prop_def limits_def)

lemma limit_for_fallback:
  assumes "tier \<notin> {''developer'', ''compliance'', ''enterprise''}"
    and "tier \<notin> set object_prototype_names"
  shows "limit_for tier = Own \<lparr>windowMs = 900000, max_hits = 1000\<rparr>"
  using assms by (simp add: limit_for_def get_prop_def limits_def)

lemma limit_for_inherited:
  assumes "tier \<in> set object_prototype_names"
  shows "limit_for tier = Inherited"
  using assms
  by (auto simp add: limit_for_def get_prop_def limits_def object_prototype_names_def)

text \<open>
  What \<open>createRateLimit\<close> hands to \<open>rateLimit\<close>: the table's entry for the three
  tiers, the developer entry for a tier that is neither in the table nor inherited, and
  no window and no ceiling at all for an inherited name.
\<close>

lemma createRateLimit_known_tiers:
  "createRateLimit rl ''developer'' =
     rateLimit rl \<lparr>opt_windowMs = Some 900000, opt_max = Some 1000,
                   opt_message = JObj [(''error'', JStr ''Rate limit exceeded''),
                                       (''tier'', JStr ''developer''),
                                       (''upgradeUrl'', JStr ''/pricing'')],
                   standardHeaders = True, legacyHeaders = False\<rparr>"
  "createRateLimit rl ''compliance'' =
     rateLimit rl \<lparr>opt_windowMs = Some 900000, opt_max = Some 10000,
                   opt_message = JObj [(''error'', JStr ''Rate limit exceeded''),
                                       (''tier'', JStr ''compliance''),
                                       (''upgradeUrl'', JStr ''/contact'')],
                   standardHeaders = True, legacyHeaders = False\<rparr>"
  "createRateLimit rl ''enterprise'' =
     rateLimit rl \<lparr>opt_windowMs = Some 900000, opt_max = Some 100000,
                   opt_message = JObj [(''error'', JStr ''Rate limit exceeded''),
                                       (''tier'', JStr ''enterprise''),
                                       (''upgradeUrl'', JStr ''/contact'')],
                   standardHeaders = True, legacyHeaders = False\<rparr>"
  by (simp_all add: createRateLimit_def rate_limit_options_def limit_for_known)

lemma createRateLimit_unrecognized:
  assumes "tier \<notin> {''developer'', ''compliance'', ''enterprise''}"
    and "tier \<notin> set object_prototype_names"
  shows "createRateLimit rl tier =
     rateLimit rl \<lparr>opt_windowMs = Some 900000, opt_max = Some 1000,
                   opt_message = JObj [(''error'', JStr ''Rate limit exceeded''),
                                       (''tier'', JStr tier),
                                       (''upgradeUrl'', JStr ''/contact'')],
                   standardHeaders = True, legacyHeaders = False\<rparr>"
  using assms by (simp add: createRateLimit_def rate_limit_options_def limit_for_fallback)

lemma createRateLimit_inherited:
  assumes "tier \<in> set object_prototype_names"
  shows "createRateLimit rl tier =
     rateLimit rl \<lparr>opt_windowMs = None, opt_max = None,
                   opt_message = JObj [(''error'', JStr ''Rate limit exceeded''),
                                       (''tier'', JStr tier),
                                       (''upgradeUrl'', JStr ''/contact'')],
                   standardHeaders = True, legacyHeaders = False\<rparr>"
proof -
  from assms have "tier \<noteq> ''developer''"
    by (auto simp add: object_prototype_names_def)
  then show ?thesis
    by (simp add: createRateLimit_def rate_limit_options_def limit_for_inherited [OF assms])
qed

text \<open>
  The feature gate: the table for the three tiers, no feature for a plan that is
  neither in the table nor inherited (an absent plan included), a TypeError for an
  inherited name.
\<close>

lemma plan_includes_known_tiers:
  "plan_includes (Some ''developer'') f = Inr (f \<in> {''url_scan'', ''basic_reports''})"
  "plan_includes (Some ''compliance'') f =
     Inr (f \<in> {''url_scan'', ''vertical_discovery'', ''ai_fixes'', ''legal_risk''})"
  "plan_includes (Some ''enterprise'') f =
     Inr (f \<in> {''url_scan'', ''vertical_discovery'', ''ai_fixes'', ''legal_risk'',
                ''api_access'', ''white_label''})"
  by (simp_all add: plan_includes_def get_prop_def features_def prop_key_def)

lemma plan_includes_unrecognized:
  assumes "prop_key p \<notin> {''developer'', ''compliance'', ''enterprise''}"
    and "prop_key p \<notin> set object_prototype_names"
  shows "plan_includes p f = Inr False"
  using assms by (simp add: plan_includes_def get_prop_def features_def)

lemma plan_includes_inherited:
  assumes "prop_key p \<in> set object_prototype_names"
  shows "plan_includes p f = Inl TypeError"
  using assms
  by (auto simp add: plan_includes_def get_prop_def features_def object_prototype_names_def)

lemma requireFeature_allows:
  "requireFeature f usr = Next () \<longleftrightarrow> plan_includes (plan usr) f = Inr True"
  by (simp add: requireFeature_def split: sum.splits bool.splits)

lemma requireFeature_throws:
  "requireFeature f usr = Throw TypeError \<longleftrightarrow>
     prop_key (plan usr) \<in> set object_prototype_names"
proof
  assume "requireFeature f usr = Throw TypeError"
  then have "plan_includes (plan usr) f = Inl TypeError"
    by (simp add: requireFeature_def split: sum.splits bool.splits)
  then show "prop_key (plan usr) \<in> set object_prototype_names"
    by (simp add: plan_includes_def get_prop_def split: option.splits if_splits)
next
  assume "prop_key (plan usr) \<in> set object_prototype_names"
  then show "requireFeature f usr = Throw TypeError"
    by (simp add: requireFeature_def plan_includes_inherited)
qed

lemma split_sp_no_space: "CHR '' '' \<notin> set s \<Longrightarrow> split_sp s = [s]"
  by (induction s) auto

lemma split_sp_append:
  "CHR '' '' \<notin> set w \<Longrightarrow> split_sp (w @ CHR '' '' # r) = w # split_sp r"
  by (induction w) auto

lemma header_token_second_field:
  assumes "CHR '' '' \<notin> set w" and "CHR '' '' \<notin> set tok"
  shows "header_token (Some (w @ '' '' @ tok)) = Some tok"
  using assms by (simp add: header_token_def split_sp_append split_sp_no_space)

lemma claims_of_valid:
  fixes u :: user
  assumes "valid_identity u"
  shows "\<lparr>user_id = user_id u, email = email u, plan = Some (or_str (plan u) ''developer''),
          credits = Some (or_num (credits u) (num 0)), company = company u\<rparr> = u"
  using assms by (cases u) (auto simp add: valid_identity_def or_str_def or_num_def num_def)

lemma double_jwt_honours: "jwt_honours (double_jwt k c t) k c expiresIn_24h t"
  by (simp add: jwt_honours_def double_jwt_def)

lemma valid_alice: "valid_identity alice"
  unfolding valid_identity_def alice_def by (simp, intro exI [of _ 10]) simp

lemma tierLimiter_first_call:
  assumes "plan p \<in> {Some ''developer'', Some ''compliance'', Some ''enterprise''}"
  shows "tierLimiter (counter_lib d) p key = Next p"
  using assms
  by (auto simp add: tierLimiter_def createRateLimit_def counter_lib_def counter_new_def
      counter_call_def rate_limit_options_def limit_for_def get_prop_def limits_def or_str_def)

lemma split_sp_trailing_space:
  "CHR '' '' \<notin> set w \<Longrightarrow> split_sp (w @ '' '') = [w, []]"
  using split_sp_append [of w "[]"] by simp

lemma counter_call_hits:
  "hits (snd (counter_call c key)) key = Suc (hits c key)"
  "ceiling_hits (snd (counter_call c key)) = ceiling_hits c"
  by (simp_all add: counter_call_def Let_def)

lemma counter_call_accepted:
  "accepted (fst (counter_call c key)) \<longleftrightarrow> int (hits c key) < ceiling_hits c"
  by (simp add: counter_call_def Let_def)

lemma counter_call_no_throw: "fst (counter_call c key) \<noteq> Throw e"
  by (simp add: counter_call_def Let_def)

text \<open>
  A limiter that is kept between calls admits as many calls of one caller as its
  ceiling leaves room for.
\<close>

lemma call_n_counter:
  "length (filter accepted (call_n (counter_lib d) c key n)) =
     nat (min (int n) (ceiling_hits c - int (hits c key)))"
proof (induction n arbitrary: c)
  case 0
  then show ?case by simp
next
  case (Suc n)
  have step: "call_n (counter_lib d) c key (Suc n) =
      fst (counter_call c key) # call_n (counter_lib d) (snd (counter_call c key)) key n"
    by (simp add: counter_lib_def)
  show ?case
    unfolding step
    by (auto simp add: Suc.IH counter_call_hits counter_call_accepted min_def)
qed



text \<open>A balance that is not negative is never below a negative cost.\<close>

lemma checkCredits_nonneg_neg:
  fixes usr :: "'a user_scheme"
  assumes "credits usr = Some a" and "a \<noteq> NaN" and "\<not> dlt a (num 0)" and "dlt c (num 0)"
  shows "checkCredits usr (Some \<lparr>body_cost = Some c\<rparr>) = Next (usr\<lparr>credits := Some (dsub a c)\<rparr>)"
proof -
  from assms(4) have c: "or_num (Some c) (num 1) = c"
    by (cases c) (simp_all add: or_num_def num_def)
  from assms(2) have a: "or_num (Some a) (num 0) = a"
    by (cases a) (simp_all add: or_num_def num_def)
  from assms(2,3,4) have "\<not> dlt a c"
    by (cases a; cases c) (simp_all add: num_def)
  then show ?thesis
    by (simp add: checkCredits_def assms(1) a c)
qed


section \<open>Token round trip\<close>

text \<open>
  C1 (as amended). For every valid identity, a token issued by \<open>generateToken\<close> and
  presented as \<open>Bearer <token>\<close> before its expiry, 24 hours after issue on the token
  library's clock, makes \<open>authenticateToken\<close> set \<open>req.user\<close> to exactly the claims
  issued (with \<open>iat\<close> and \<open>exp\<close>) and pass the request to the tier limiter; from the
  expiry on, the answer is the 403 "Invalid or expired token" response. The token
  library is assumed to honour the token it issued.
\<close>

theorem verify_issue_roundtrip:
  fixes u :: user
  assumes "valid_identity u"
    and "jwt_honours jl (JWT_SECRET env) u expiresIn_24h t"
  shows "authenticateToken jl rl env (Some (''Bearer '' @ generateToken jl env u t)) key t' =
           (if t' < t + 24 * 60 * 60
            then tierLimiter rl
                   \<lparr>user_id = user_id u, email = email u, plan = plan u, credits = credits u,
                    company = company u, iat = t, exp_at = t + 24 * 60 * 60\<rparr> key
            else Respond 403 invalid_token_body)"
proof -
  let ?tok = "jwt_sign jl u (JWT_SECRET env) expiresIn_24h t"
  have gen: "generateToken jl env u t = ?tok"
    by (simp add: generateToken_def claims_of_valid [OF assms(1)])
  from assms(2) have ne: "?tok \<noteq> []" and sp: "CHR '' '' \<notin> set ?tok"
    and ver: "jwt_verify jl ?tok (JWT_SECRET env) t' =
               (if t' < t + expiresIn_24h then Inr (issued u t expiresIn_24h)
                else Inl TokenExpiredError)"
    by (simp_all add: jwt_honours_def)
  have "header_token (Some (''Bearer '' @ ?tok)) = Some ?tok"
    using header_token_second_field [of "''Bearer''" ?tok] sp by simp
  then show ?thesis
    using ne ver by (simp add: gen authenticateToken_def issued_def expiresIn_24h_def)
qed

theorem verify_issue_roundtrip_witness:
  "valid_identity alice \<and>
   jwt_honours (double_jwt (JWT_SECRET no_env) alice 1000) (JWT_SECRET no_env) alice
     expiresIn_24h 1000 \<and>
   authenticateToken (double_jwt (JWT_SECRET no_env) alice 1000) (counter_lib 5) no_env
     (Some (''Bearer '' @
            generateToken (double_jwt (JWT_SECRET no_env) alice 1000) no_env alice 1000))
     ''10.0.0.1'' 5000 =
   Next \<lparr>user_id = ''u-17'', email = ''alice@example.org'', plan = Some ''compliance'',
         credits = Some (num 10), company = ''Example Ltd'', iat = 1000, exp_at = 87400\<rparr>"
proof -
  have "authenticateToken (double_jwt (JWT_SECRET no_env) alice 1000) (counter_lib 5) no_env
     (Some (''Bearer '' @
            generateToken (double_jwt (JWT_SECRET no_env) alice 1000) no_env alice 1000))
     ''10.0.0.1'' 5000 =
     tierLimiter (counter_lib 5)
       \<lparr>user_id = user_id alice, email = email alice, plan = plan alice,
        credits = credits alice, company = company alice,
        iat = 1000, exp_at = 1000 + 24 * 60 * 60\<rparr> ''10.0.0.1''"
    using verify_issue_roundtrip [OF valid_alice double_jwt_honours, of no_env 1000
        "counter_lib 5" "''10.0.0.1''" 5000]
    by simp
  also have "\<dots> = Next \<lparr>user_id = ''u-17'', email = ''alice@example.org'',
         plan = Some ''compliance'', credits = Some (num 10), company = ''Example Ltd'',
         iat = 1000, exp_at = 87400\<rparr>"
    by (simp add: alice_def tierLimiter_first_call)
  finally show ?thesis
    using valid_alice double_jwt_honours by blast
qed

text \<open>
  Against C1 as stated: one second past the expiry of a token issued for \<open>alice\<close>, the
  answer is not a distinct expiry error but the very response a string that never was
  a token gets.
\<close>

theorem expired_is_the_invalid_response:
  "authenticateToken (double_jwt (JWT_SECRET no_env) alice 1000) (counter_lib 5) no_env
     (Some (''Bearer '' @
            generateToken (double_jwt (JWT_SECRET no_env) alice 1000) no_env alice 1000))
     ''10.0.0.1'' (1000 + 24 * 60 * 60 + 1) = Respond 403 invalid_token_body \<and>
   authenticateToken (double_jwt (JWT_SECRET no_env) alice 1000) (counter_lib 5) no_env
     (Some ''Bearer not.a.token'') ''10.0.0.1'' (1000 + 24 * 60 * 60 + 1)
     = Respond 403 invalid_token_body"
  by (simp add: authenticateToken_def generateToken_def double_jwt_def header_token_def
      expiresIn_24h_def)


section \<open>Failures of token verification\<close>

text \<open>
  C2 (as amended). \<open>authenticateToken\<close> answers 401 "Authentication required" when no
  token is presented: the header is absent, has no space, or has nothing between its
  first space and the next space or the end. When the second field of the header is a
  token on which the token library reports an error, whichever error it is, the answer
  is one and the same 403 "Invalid or expired token" response. The middleware itself
  never throws: it does only if the limiter does.
\<close>

theorem authenticateToken_failures:
  "authenticateToken jl rl env None key now = Respond 401 auth_required_body \<and>
   (CHR '' '' \<notin> set w \<longrightarrow>
      authenticateToken jl rl env (Some w) key now = Respond 401 auth_required_body \<and>
      authenticateToken jl rl env (Some (w @ '' '')) key now = Respond 401 auth_required_body \<and>
      authenticateToken jl rl env (Some (w @ ''  '' @ r)) key now
        = Respond 401 auth_required_body) \<and>
   (CHR '' '' \<notin> set w \<and> CHR '' '' \<notin> set tok \<and> tok \<noteq> [] \<and>
    jwt_verify jl tok (JWT_SECRET env) now = Inl e \<longrightarrow>
      authenticateToken jl rl env (Some (w @ '' '' @ tok)) key now
        = Respond 403 invalid_token_body) \<and>
   ((\<forall>l k e. fst (rl_call rl l k) \<noteq> Throw e) \<longrightarrow>
      authenticateToken jl rl env h key now \<noteq> Throw e')"
  apply (intro conjI impI)
  subgoal by (simp add: authenticateToken_def header_token_def)
  subgoal by (simp add: authenticateToken_def header_token_def split_sp_no_space)
  subgoal by (simp add: authenticateToken_def header_token_def split_sp_trailing_space)
  subgoal using split_sp_append [of w "CHR '' '' # r"]
    by (simp add: authenticateToken_def header_token_def)
  subgoal using header_token_second_field [of w tok]
    by (simp add: authenticateToken_def)
  subgoal
    by (auto simp add: authenticateToken_def tierLimiter_def
        split: option.splits sum.splits mw_result.splits)
  done

theorem authenticateToken_failures_witness:
  "authenticateToken (double_jwt (JWT_SECRET no_env) alice 1000) (counter_lib 5) no_env
     (Some ''Bearer'') ''10.0.0.1'' 2000 = Respond 401 auth_required_body \<and>
   authenticateToken (double_jwt (JWT_SECRET no_env) alice 1000) (counter_lib 5) no_env
     (Some ''Bearer hdr.claims.sif'') ''10.0.0.1'' 2000 = Respond 403 invalid_token_body \<and>
   authenticateToken (double_jwt (JWT_SECRET no_env) alice 1000) (counter_lib 5) no_env
     (Some ''Bearer hdr.claims.sig'') ''10.0.0.1'' 2000 \<noteq> Throw TypeError"
proof -
  have w: "CHR '' '' \<notin> set ''Bearer''" and t: "CHR '' '' \<notin> set ''hdr.claims.sif''"
    and ne: "''hdr.claims.sif'' \<noteq> []"
    by simp_all
  have v: "jwt_verify (double_jwt (JWT_SECRET no_env) alice 1000) ''hdr.claims.sif''
             (JWT_SECRET no_env) 2000 = Inl JsonWebTokenError"
    by (simp add: double_jwt_def)
  have nt: "\<forall>l k e. fst (rl_call (counter_lib 5) l k) \<noteq> Throw e"
    by (simp add: counter_lib_def counter_call_no_throw)
  show ?thesis
    using authenticateToken_failures [of "double_jwt (JWT_SECRET no_env) alice 1000"
        "counter_lib 5" no_env "''10.0.0.1''" 2000 "''Bearer''" "[]" "''hdr.claims.sif''"
        JsonWebTokenError "Some ''Bearer hdr.claims.sig''" TypeError] w t ne v nt
    by simp
qed

text \<open>
  Against C2 as stated: an expired token and a token with one byte changed get the same
  response, so no reading of the responses tells \<open>Expired\<close> from \<open>Invalid\<close>.
\<close>

theorem no_typed_expiry:
  "\<not> (\<exists>classify :: payload mw_result \<Rightarrow> AuthError.
        classify (authenticateToken (double_jwt (JWT_SECRET no_env) alice 1000) (counter_lib 5)
                    no_env (Some ''Bearer hdr.claims.sig'') ''10.0.0.1'' 90000) = Expired \<and>
        classify (authenticateToken (double_jwt (JWT_SECRET no_env) alice 1000) (counter_lib 5)
                    no_env (Some ''Bearer hdr.claims.sif'') ''10.0.0.1'' 2000) = Invalid)"
proof -
  have a: "authenticateToken (double_jwt (JWT_SECRET no_env) alice 1000) (counter_lib 5)
                    no_env (Some ''Bearer hdr.claims.sig'') ''10.0.0.1'' 90000
           = Respond 403 invalid_token_body"
    by (simp add: authenticateToken_def double_jwt_def header_token_def expiresIn_24h_def)
  have b: "authenticateToken (double_jwt (JWT_SECRET no_env) alice 1000) (counter_lib 5)
                    no_env (Some ''Bearer hdr.claims.sif'') ''10.0.0.1'' 2000
           = Respond 403 invalid_token_body"
    by (simp add: authenticateToken_def double_jwt_def header_token_def expiresIn_24h_def)
  show ?thesis unfolding a b by auto
qed


section \<open>Signing key\<close>

text \<open>
  C7 (as amended). The signing key is the environment variable \<open>JWT_SECRET\<close>; when it
  is unset or empty, in whatever environment, the module loads with the built-in key
  \<open>wcagai-v4-revenue-secret-2025\<close>: loading never fails and writes nothing to the log.
  That key is the one tokens are signed with.
\<close>

theorem load_module_key:
  "load_module env =
     Loaded (case env ''JWT_SECRET'' of
               None \<Rightarrow> ''wcagai-v4-revenue-secret-2025''
             | Some k \<Rightarrow> if k = [] then ''wcagai-v4-revenue-secret-2025'' else k) [] \<and>
   load_module env = Loaded (JWT_SECRET env) [] \<and>
   generateToken jl env usr now =
     jwt_sign jl
       \<lparr>user_id = user_id usr, email = email usr,
        plan = Some (or_str (plan usr) ''developer''),
        credits = Some (or_num (credits usr) (num 0)), company = company usr\<rparr>
       (case env ''JWT_SECRET'' of
          None \<Rightarrow> ''wcagai-v4-revenue-secret-2025''
        | Some k \<Rightarrow> if k = [] then ''wcagai-v4-revenue-secret-2025'' else k)
       (24 * 60 * 60) now"
  by (simp add: load_module_def generateToken_def JWT_SECRET_def or_str_def expiresIn_24h_def
      split: option.splits)

text \<open>
  Against C7 as stated: in a production environment without a key the module loads,
  uses the built-in key and logs nothing.
\<close>

theorem load_module_production_without_key:
  "production_env ''NODE_ENV'' = Some ''production'' \<and>
   production_env ''JWT_SECRET'' = None \<and>
   load_module production_env = Loaded ''wcagai-v4-revenue-secret-2025'' []"
  by (simp add: load_module_def JWT_SECRET_def or_str_def production_env_def)


section \<open>Tier ceilings\<close>

text \<open>
  C4. The tier table gives the developer tier a ceiling of 1,000 per 15 minutes, and
  an unrecognized tier is meant to fall back to it. For the tier \<open>constructor\<close> the
  lookup \<open>limits[tier]\<close> finds the member every object inherits, no fall-back happens,
  and the limiter is built with neither a window nor a ceiling.
\<close>

theorem createRateLimit_constructor:
  "createRateLimit rl ''constructor'' =
     rateLimit rl \<lparr>opt_windowMs = None, opt_max = None,
                   opt_message = JObj [(''error'', JStr ''Rate limit exceeded''),
                                       (''tier'', JStr ''constructor''),
                                       (''upgradeUrl'', JStr ''/contact'')],
                   standardHeaders = True, legacyHeaders = False\<rparr> \<and>
   opt_max (rate_limit_options ''constructor'') \<noteq> opt_max (rate_limit_options ''developer'') \<and>
   opt_max (rate_limit_options ''developer'') = Some 1000 \<and>
   opt_windowMs (rate_limit_options ''developer'') = Some (15 * 60 * 1000)"
  by (simp add: createRateLimit_def rate_limit_options_def limit_for_def get_prop_def
      limits_def object_prototype_names_def)

text \<open>
  C10. For the unrecognized tier \<open>toString\<close> the message carries the \<open>/contact\<close> hint,
  but the developer ceiling is not applied: the \<open>max\<close> option is \<open>undefined\<close>.
\<close>

theorem createRateLimit_toString:
  "createRateLimit rl ''toString'' =
     rateLimit rl \<lparr>opt_windowMs = None, opt_max = None,
                   opt_message = JObj [(''error'', JStr ''Rate limit exceeded''),
                                       (''tier'', JStr ''toString''),
                                       (''upgradeUrl'', JStr ''/contact'')],
                   standardHeaders = True, legacyHeaders = False\<rparr> \<and>
   opt_max (rate_limit_options ''toString'') = None \<and>
   field (opt_message (rate_limit_options ''toString'')) ''upgradeUrl'' = JStr ''/contact''"
  by (simp add: createRateLimit_def rate_limit_options_def limit_for_def get_prop_def
      limits_def object_prototype_names_def)

text \<open>
  C6. A caller of the developer tier sends 1,001 requests with a valid token in one
  window. A limiter kept between the requests would admit 1,000 of them; but
  \<open>authenticateToken\<close> builds a new limiter for every request, each request is the
  first one its limiter sees, and all 1,001 are admitted.
\<close>

theorem per_request_limiter_admits_all:
  "length (filter accepted
     (call_n (counter_lib 5) (createRateLimit (counter_lib 5) ''developer'') ''10.0.0.1'' 1001))
     = 1000 \<and>
   length (filter accepted
     (map (\<lambda>authHeader.
             authenticateToken (double_jwt (JWT_SECRET no_env) bob 1000) (counter_lib 5) no_env
               (Some authHeader) ''10.0.0.1'' 2000)
          (replicate 1001 ''Bearer hdr.claims.sig''))) = 1001"
proof -
  have kept: "length (filter accepted
     (call_n (counter_lib 5) (createRateLimit (counter_lib 5) ''developer'') ''10.0.0.1'' 1001))
     = 1000"
    unfolding call_n_counter
    by (simp add: createRateLimit_def counter_lib_def counter_new_def rate_limit_options_def
        limit_for_def get_prop_def limits_def)
  have "authenticateToken (double_jwt (JWT_SECRET no_env) bob 1000) (counter_lib 5) no_env
               (Some ''Bearer hdr.claims.sig'') ''10.0.0.1'' 2000
        = Next (issued bob 1000 expiresIn_24h)"
    by (simp add: authenticateToken_def header_token_def double_jwt_def expiresIn_24h_def
        tierLimiter_first_call issued_def bob_def)
  then show ?thesis using kept by simp
qed


section \<open>Feature gate\<close>

text \<open>
  C5. An unknown tier is meant to have the empty feature set. For the tier
  \<open>constructor\<close> the gate neither allows nor denies: \<open>features[user.plan]\<close> is an
  inherited member without \<open>includes\<close>, and the middleware throws.
\<close>

theorem requireFeature_constructor:
  "requireFeature ''url_scan'' (alice\<lparr>plan := Some ''constructor''\<rparr>) = Throw TypeError"
  by (simp add: requireFeature_def plan_includes_def get_prop_def features_def prop_key_def
      alice_def object_prototype_names_def)

text \<open>
  C8. Whenever \<open>requireFeature\<close> answers a request, the answer is status 403 and
  carries the feature name, the caller's current plan and the upgrade price: 299 for
  \<open>vertical_discovery\<close> and \<open>ai_fixes\<close>, 999 for every other feature.
\<close>

theorem requireFeature_denied:
  assumes "requireFeature feature usr = Respond st body"
  shows "st = 403 \<and>
         body = JObj [(''error'', JStr ''Feature not available in your plan''),
                      (''feature'', JStr feature),
                      (''currentPlan'', opt_str_json (plan usr)),
                      (''upgradeUrl'', JStr ''/pricing''),
                      (''upgradePrice'',
                         JNum (if feature = ''vertical_discovery'' \<or> feature = ''ai_fixes''
                               then 299 else 999))]"
  using assms
  by (auto simp add: requireFeature_def upgradePrice_def split: sum.splits bool.splits)

theorem requireFeature_denied_witness:
  "requireFeature ''api_access'' alice =
     Respond 403 (JObj [(''error'', JStr ''Feature not available in your plan''),
                        (''feature'', JStr ''api_access''),
                        (''currentPlan'', JStr ''compliance''),
                        (''upgradeUrl'', JStr ''/pricing''),
                        (''upgradePrice'', JNum 999)])"
proof -
  obtain st body where r: "requireFeature ''api_access'' alice = Respond st body"
    by (simp add: requireFeature_def plan_includes_def get_prop_def features_def prop_key_def
        alice_def)
  from requireFeature_denied [OF r]
  have "st = 403" and "body = JObj [(''error'', JStr ''Feature not available in your plan''),
                        (''feature'', JStr ''api_access''),
                        (''currentPlan'', JStr ''compliance''),
                        (''upgradeUrl'', JStr ''/pricing''),
                        (''upgradePrice'', JNum 999)]"
    by (simp_all add: opt_str_json_def alice_def)
  with r show ?thesis by simp
qed


section \<open>Credit gate\<close>




text \<open>
  C9 (as amended). For a balance that is not negative and a strictly negative cost in
  the parsed request body, \<open>checkCredits\<close> calls \<open>next()\<close>, never answering
  "Insufficient credits", and leaves the user with balance minus cost as double
  precision computes it. When balance and cost are integers and balance minus cost is
  at most \<open>2^53\<close>, that is exactly balance minus cost, which is more than the balance
  was.
\<close>

theorem checkCredits_negative_cost:
  fixes usr :: "'a user_scheme"
  shows "(credits usr = Some a \<and> a \<noteq> NaN \<and> \<not> dlt a (num 0) \<and> dlt c (num 0) \<longrightarrow>
            checkCredits usr (Some \<lparr>body_cost = Some c\<rparr>) =
              Next (usr\<lparr>credits := Some (dsub a c)\<rparr>)) \<and>
         (credits usr = Some (num b) \<and> 0 \<le> b \<and> n < 0 \<and> b - n \<le> 2 ^ 53 \<longrightarrow>
            checkCredits usr (Some \<lparr>body_cost = Some (num n)\<rparr>) =
              Next (usr\<lparr>credits := Some (num (b - n))\<rparr>) \<and> b < b - n)"
proof (intro conjI impI)
  assume "credits usr = Some a \<and> a \<noteq> NaN \<and> \<not> dlt a (num 0) \<and> dlt c (num 0)"
  then show "checkCredits usr (Some \<lparr>body_cost = Some c\<rparr>) =
      Next (usr\<lparr>credits := Some (dsub a c)\<rparr>)"
    by (simp add: checkCredits_nonneg_neg)
next
  assume h: "credits usr = Some (num b) \<and> 0 \<le> b \<and> n < 0 \<and> b - n \<le> 2 ^ 53"
  then have "checkCredits usr (Some \<lparr>body_cost = Some (num n)\<rparr>) =
      Next (usr\<lparr>credits := Some (dsub (num b) (num n))\<rparr>)"
    by (intro checkCredits_nonneg_neg) (simp_all add: dlt_num, simp add: num_def)
  moreover from h have "\<bar>b - n\<bar> \<le> 2 ^ 53" by simp
  then have "dsub (num b) (num n) = num (b - n)" by (rule dsub_num)
  ultimately show "checkCredits usr (Some \<lparr>body_cost = Some (num n)\<rparr>) =
      Next (usr\<lparr>credits := Some (num (b - n))\<rparr>)"
    by simp
next
  assume "credits usr = Some (num b) \<and> 0 \<le> b \<and> n < 0 \<and> b - n \<le> 2 ^ 53"
  then show "b < b - n" by simp
qed

theorem checkCredits_negative_cost_witness:
  "credits alice = Some (num 10) \<and> num 10 \<noteq> NaN \<and> \<not> dlt (num 10) (num 0) \<and>
   dlt (num (- 5)) (num 0) \<and> (0::int) \<le> 10 \<and> (- 5 :: int) < 0 \<and> (10::int) - (- 5) \<le> 2 ^ 53 \<and>
   checkCredits alice (Some \<lparr>body_cost = Some (num (- 5))\<rparr>) =
     Next (alice\<lparr>credits := Some (num 15)\<rparr>) \<and>
   dsub (num 10) (num (- 5)) = num 15 \<and> (10::int) < 15"
proof -
  have c: "credits alice = Some (num 10)"
    by (simp add: alice_def)
  have p: "num 10 \<noteq> NaN" "\<not> dlt (num 10) (num 0)" "dlt (num (- 5)) (num 0)"
    by (simp_all add: dlt_num) (simp add: num_def)
  have q: "(0::int) \<le> 10" "(- 5 :: int) < 0" "(10::int) - (- 5) \<le> 2 ^ 53"
    by simp_all
  note t = checkCredits_negative_cost [of alice "num 10" "num (- 5)" 10 "- 5"]
  from t c q
  have "checkCredits alice (Some \<lparr>body_cost = Some (num (- 5))\<rparr>) =
          Next (alice\<lparr>credits := Some (num (10 - (- 5)))\<rparr>)"
    by blast
  then have r: "checkCredits alice (Some \<lparr>body_cost = Some (num (- 5))\<rparr>) =
          Next (alice\<lparr>credits := Some (num 15)\<rparr>)"
    by simp
  from t c p
  have g: "checkCredits alice (Some \<lparr>body_cost = Some (num (- 5))\<rparr>) =
          Next (alice\<lparr>credits := Some (dsub (num 10) (num (- 5)))\<rparr>)"
    by blast
  have d: "dsub (num 10) (num (- 5)) = num 15"
    using dsub_num [of 10 "- 5"] by simp
  from c p q r g d show ?thesis by simp
qed

text \<open>
  Against C9 as stated: with balance \<open>2^53\<close> and cost \<open>-1\<close>, and with balance 10 and
  cost \<open>-2^-54\<close>, the request passes and the balance afterwards is the balance before,
  not strictly greater.
\<close>

theorem checkCredits_negative_cost_absorbed:
  "checkCredits (alice\<lparr>credits := Some (num (2 ^ 53))\<rparr>) (Some \<lparr>body_cost = Some (num (- 1))\<rparr>) =
     Next (alice\<lparr>credits := Some (num (2 ^ 53))\<rparr>) \<and>
   checkCredits (alice\<lparr>credits := Some (num 10)\<rparr>)
       (Some \<lparr>body_cost = Some (Fin (- (2 ^ 1020)))\<rparr>) =
     Next (alice\<lparr>credits := Some (num 10)\<rparr>)"
proof -
  have "checkCredits (alice\<lparr>credits := Some (num (2 ^ 53))\<rparr>)
          (Some \<lparr>body_cost = Some (num (- 1))\<rparr>) =
        Next (alice\<lparr>credits := Some (dsub (num (2 ^ 53)) (num (- 1)))\<rparr>)"
    using checkCredits_nonneg_neg [of "alice\<lparr>credits := Some (num (2 ^ 53))\<rparr>"
        "num (2 ^ 53)" "num (- 1)"]
    by (simp add: dlt_num num_neq_NaN)
  moreover have "checkCredits (alice\<lparr>credits := Some (num 10)\<rparr>)
          (Some \<lparr>body_cost = Some (Fin (- (2 ^ 1020)))\<rparr>) =
        Next (alice\<lparr>credits := Some (dsub (num 10) (Fin (- (2 ^ 1020))))\<rparr>)"
    using checkCredits_nonneg_neg [of "alice\<lparr>credits := Some (num 10)\<rparr>"
        "num 10" "Fin (- (2 ^ 1020))"] dlt_num [of 10 0]
    by (simp add: num_neq_NaN num_zero)
  ultimately show ?thesis
    by (simp only: dsub_tie_neg dsub_small_part)
qed

end
